theory Spec2Isabelle
  imports Complex_Main
begin

section \<open>Python calls that return or raise\<close>

text \<open>
  A call of the Python code either returns a value or raises an exception. An exception
  is kept as the text that \<^verbatim>\<open>str(e)\<close> gives, which is all that the
  \<^verbatim>\<open>except Exception as e\<close> clauses of the back end read from it.
  Exceptions are the instances of \<^verbatim>\<open>Exception\<close>, which those clauses catch;
  the cancellation of a request and other signals of the interpreter are not modelled.
\<close>

datatype 'a outcome = Returns 'a | Raises string

text \<open>Decimal text of integers, as \<^verbatim>\<open>str(n)\<close> and f-strings give it.\<close>

fun show_nat :: "nat \<Rightarrow> string" where
  "show_nat n =
     (if n < 10 then [''0123456789'' ! n]
      else show_nat (n div 10) @ [''0123456789'' ! (n mod 10)])"

declare show_nat.simps [simp del]



section \<open>Request and response models (api/models.py)\<close>

text \<open>A value of type \<^verbatim>\<open>Any\<close> inside a payload dictionary.\<close>

datatype any = NoneValue | Str string | Integer int | Boolean bool | Object string

datatype MessageRole = USER | ASSISTANT | SYSTEM

primrec MessageRole_value :: "MessageRole \<Rightarrow> string" where
  "MessageRole_value USER = ''user''"
| "MessageRole_value ASSISTANT = ''assistant''"
| "MessageRole_value SYSTEM = ''system''"

record ConversationMessage =
  role :: MessageRole
  content :: string

record ChatRequest =
  message :: string
  conversation_history :: "ConversationMessage list option"

record ChatResponse =
  response_message :: string
  response_conversation_history :: "ConversationMessage list"
  metadata :: "(string \<rightharpoonup> any) option"

datatype StreamEventType = START | AGENT | TOOL | END | ERROR

record StreamEvent =
  event :: StreamEventType
  data :: "string \<rightharpoonup> any"

datatype HealthStatus = HEALTHY | DEGRADED | UNHEALTHY

record ComponentHealth =
  component_status :: HealthStatus
  component_message :: "string option"
  details :: "(string \<rightharpoonup> any) option"

record HealthResponse =
  status :: HealthStatus
  components :: "string \<rightharpoonup> ComponentHealth"
  version :: "string option"
  timestamp :: "string option"

section \<open>The CRM tools (tools/crm\_tools.py)\<close>

datatype ActiveStatus = ACTIVE | INACTIVE


record Customer =
  customer_id :: int
  name :: string
  address :: string
  email :: string
  phone :: string
  credit :: real
  active_status :: ActiveStatus

text \<open>
  A \<^verbatim>\<open>CustomerManager\<close> is used through its methods. Each of them opens a
  database session and has no \<^verbatim>\<open>except\<close> clause for a database error, so
  each may raise.
\<close>

record CustomerManager =
  get_customer :: "int \<Rightarrow> Customer option outcome"
  get_customer_count :: "int outcome"

text \<open>
  What the CRM tools take from outside: the configured database path, the constructor
  of the manager, and the rendering of a float by the format
  \<^verbatim>\<open>{credit:,.2f}\<close> (floating point, not modelled further).
\<close>

record crm_env =
  crm_database_full_path :: string
  new_CustomerManager :: "string \<Rightarrow> CustomerManager outcome"
  format_credit :: "real \<Rightarrow> string"






section \<open>The SQL tool (tools/sql\_tools.py)\<close>









section \<open>Tools and their sources (tools/search\_tools.py, crm\_tools.py, sql\_tools.py)\<close>

text \<open>
  In the registry a tool is identified by its name; \<open>tool_name\<close> is the attribute
  \<^verbatim>\<open>tool.name\<close>.
\<close>

datatype tool = Tool (tool_name: string)

datatype document = Document string
datatype embeddings = OpenAIEmbeddings
datatype vectorstore = FAISS "document list"
datatype retriever = VectorStoreRetriever vectorstore
datatype llm = ChatOpenAI string
datatype executor = CompiledGraph llm "tool list"

text \<open>
  Messages of the conversation, by their LangChain class. An assistant message carries
  the tool calls the model asked for (none in a final answer); a tool message carries
  the result of one call.
\<close>

record tool_call =
  call_name :: string
  call_args :: string
  call_id :: string

datatype message =
    SystemMessage string
  | HumanMessage string
  | AIMessage string "tool_call list"
  | ToolMessage string string

datatype stream_end = Exhausted | Raised string

text \<open>
  Everything the services take from outside the repository: the settings and the
  library constructors and calls, each of which may raise.
\<close>

record environment =
  \<comment> \<open>settings\<close>
  agent_model_name :: string
  faiss_cache_enabled :: bool
  faiss_cache_path :: string
  faiss_tool_name :: string
  faiss_urls_list :: "string list outcome"
  \<comment> \<open>search tools\<close>
  new_ArxivQueryRun :: "unit outcome"
  new_WikipediaQueryRun :: "unit outcome"
  \<comment> \<open>vector store\<close>
  WebBaseLoader_load :: "string \<Rightarrow> document list outcome"
  split_documents :: "document list \<Rightarrow> document list outcome"
  new_OpenAIEmbeddings :: "embeddings outcome"
  FAISS_from_documents :: "document list \<Rightarrow> embeddings \<Rightarrow> vectorstore outcome"
  save_local :: "vectorstore \<Rightarrow> unit outcome"
  cache_path_exists :: "bool outcome"
  FAISS_load_local :: "embeddings \<Rightarrow> vectorstore outcome"
  as_retriever :: "vectorstore \<Rightarrow> retriever outcome"
  create_retriever_tool :: "retriever \<Rightarrow> string \<Rightarrow> tool outcome"
  \<comment> \<open>agent\<close>
  new_ChatOpenAI :: "llm outcome"
  create_react_agent :: "llm \<Rightarrow> tool list \<Rightarrow> executor outcome"
  executor_invoke :: "executor \<Rightarrow> message list \<Rightarrow> (string \<rightharpoonup> message list) outcome"
  executor_astream :: "executor \<Rightarrow> message list \<Rightarrow> (string \<rightharpoonup> any) list \<times> stream_end"
  \<comment> \<open>routes\<close>
  model_dump_json :: "StreamEvent \<Rightarrow> string outcome"
  response_time_ms :: int
  utcnow_isoformat :: string

definition get_wikipedia_tool :: "environment \<Rightarrow> tool outcome" where
  "get_wikipedia_tool env =
     (case new_WikipediaQueryRun env of
        Raises e \<Rightarrow> Raises e
      | Returns _ \<Rightarrow> Returns (Tool ''WikipediaSearch''))"

definition get_arxiv_tool :: "environment \<Rightarrow> tool outcome" where
  "get_arxiv_tool env =
     (case new_ArxivQueryRun env of
        Raises e \<Rightarrow> Raises e
      | Returns _ \<Rightarrow> Returns (Tool ''ArxivSearch''))"

definition get_duckduckgo_tool :: tool where
  "get_duckduckgo_tool = Tool ''DuckDuckGoSearch''"

text \<open>
  The list literal calls the three getters in order; an exception of one of them is
  logged and raised again.
\<close>

definition get_all_search_tools :: "environment \<Rightarrow> tool list outcome" where
  "get_all_search_tools env =
     (case get_arxiv_tool env of
        Raises e \<Rightarrow> Raises e
      | Returns arxiv \<Rightarrow>
          (case get_wikipedia_tool env of
             Raises e \<Rightarrow> Raises e
           | Returns wiki \<Rightarrow> Returns [arxiv, get_duckduckgo_tool, wiki]))"

definition get_all_crm_tools :: "tool list" where
  "get_all_crm_tools =
     [Tool ''get_business_client_by_id'',
      Tool ''get_business_client_by_email'',
      Tool ''search_business_clients'',
      Tool ''get_active_business_clients'',
      Tool ''get_business_client_count'']"

definition get_sql_tool :: tool where
  "get_sql_tool = Tool ''query_music_database''"

section \<open>The vector store service (services/faiss\_service.py)\<close>

record FAISSService =
  vectorstore :: "vectorstore option"
  retriever :: "retriever option"
  retriever_tool :: "tool option"
  embeddings :: "embeddings option"

text \<open>
  The loop over the configured URLs: a URL that fails to load is skipped
  (\<^verbatim>\<open>continue\<close>), the documents of the others are collected.
\<close>

fun load_all_docs :: "environment \<Rightarrow> string list \<Rightarrow> document list \<Rightarrow> document list" where
  "load_all_docs env [] all_docs = all_docs"
| "load_all_docs env (url # urls) all_docs =
     (case WebBaseLoader_load env url of
        Raises e \<Rightarrow> load_all_docs env urls all_docs
      | Returns docs \<Rightarrow> load_all_docs env urls (all_docs @ docs))"

text \<open>
  The last steps of both initialisation paths: the retriever, then the retriever tool.
  An exception leaves the fields assigned so far and makes the caller return False.
\<close>

definition make_retriever_tool :: "environment \<Rightarrow> vectorstore \<Rightarrow> FAISSService \<Rightarrow> bool \<times> FAISSService" where
  "make_retriever_tool env vs s =
     (case as_retriever env vs of
        Raises e \<Rightarrow> (False, s)
      | Returns r \<Rightarrow>
          (case create_retriever_tool env r (faiss_tool_name env) of
             Raises e \<Rightarrow> (False, s\<lparr>retriever := Some r\<rparr>)
           | Returns t \<Rightarrow> (True, s\<lparr>retriever := Some r, retriever_tool := Some t\<rparr>)))"

definition FAISSService_initialize :: "environment \<Rightarrow> FAISSService \<Rightarrow> bool \<times> FAISSService" where
  "FAISSService_initialize env s =
     (if vectorstore s \<noteq> None then (True, s)
      else
        (case faiss_urls_list env of
           Raises e \<Rightarrow> (False, s)
         | Returns urls \<Rightarrow>
             (if urls = [] then (False, s)
              else
                (let all_docs = load_all_docs env urls [] in
                 (if all_docs = [] then (False, s)
                  else
                    (case split_documents env all_docs of
                       Raises e \<Rightarrow> (False, s)
                     | Returns documents \<Rightarrow>
                         (case new_OpenAIEmbeddings env of
                            Raises e \<Rightarrow> (False, s)
                          | Returns emb \<Rightarrow>
                              (case FAISS_from_documents env documents emb of
                                 Raises e \<Rightarrow> (False, s\<lparr>embeddings := Some emb\<rparr>)
                               | Returns vs \<Rightarrow>
                                   (let s2 = s\<lparr>embeddings := Some emb, vectorstore := Some vs\<rparr> in
                                    (if faiss_cache_enabled env then
                                       (case save_local env vs of
                                          Raises e \<Rightarrow> (False, s2)
                                        | Returns _ \<Rightarrow> make_retriever_tool env vs s2)
                                     else make_retriever_tool env vs s2))))))))))"

definition load_from_disk :: "environment \<Rightarrow> FAISSService \<Rightarrow> bool \<times> FAISSService" where
  "load_from_disk env s =
     (if vectorstore s \<noteq> None then (True, s)
      else
        (case cache_path_exists env of
           Raises e \<Rightarrow> (False, s)
         | Returns False \<Rightarrow> (False, s)
         | Returns True \<Rightarrow>
             (case new_OpenAIEmbeddings env of
                Raises e \<Rightarrow> (False, s)
              | Returns emb \<Rightarrow>
                  (case FAISS_load_local env emb of
                     Raises e \<Rightarrow> (False, s\<lparr>embeddings := Some emb\<rparr>)
                   | Returns vs \<Rightarrow>
                       make_retriever_tool env vs
                         (s\<lparr>embeddings := Some emb, vectorstore := Some vs\<rparr>)))))"

definition get_retriever_tool :: "environment \<Rightarrow> FAISSService \<Rightarrow> tool option \<times> FAISSService" where
  "get_retriever_tool env s =
     (if retriever_tool s = None then
        (if faiss_cache_enabled env then
           (case load_from_disk env s of
              (True, s1) \<Rightarrow> (retriever_tool s1, s1)
            | (False, s1) \<Rightarrow>
                (let s2 = snd (FAISSService_initialize env s1) in (retriever_tool s2, s2)))
         else (let s1 = snd (FAISSService_initialize env s) in (retriever_tool s1, s1)))
      else (retriever_tool s, s))"

definition FAISSService_is_ready :: "FAISSService \<Rightarrow> bool" where
  "FAISSService_is_ready s = (retriever_tool s \<noteq> None)"

record faiss_info =
  fi_initialized :: bool
  fi_vectorstore_type :: "string option"
  fi_tool_name :: "string option"
  fi_cache_enabled :: bool
  fi_cache_path :: "string option"

definition FAISSService_get_info :: "environment \<Rightarrow> FAISSService \<Rightarrow> faiss_info" where
  "FAISSService_get_info env s =
     \<lparr>fi_initialized = FAISSService_is_ready s,
      fi_vectorstore_type = (if vectorstore s \<noteq> None then Some ''FAISS'' else None),
      fi_tool_name = (case retriever_tool s of Some t \<Rightarrow> Some (tool_name t) | None \<Rightarrow> None),
      fi_cache_enabled = faiss_cache_enabled env,
      fi_cache_path = (if faiss_cache_enabled env then Some (faiss_cache_path env) else None)\<rparr>"

section \<open>The agent service (services/agent\_service.py)\<close>

record AgentService =
  llm :: "llm option"
  tools :: "tool list"
  agent_executor :: "executor option"
  system_message :: "string option"

text \<open>
  The two singletons of the process. The agent service reaches the vector store service
  through the module global \<^verbatim>\<open>faiss_service\<close>, so both are one state.
\<close>

record world =
  agent_service :: AgentService
  faiss_service :: FAISSService

text \<open>
  \<^verbatim>\<open>AgentService.initialize\<close>. It returns at once when the executor exists.
  Otherwise everything runs inside one \<^verbatim>\<open>try\<close> block whose
  \<^verbatim>\<open>except\<close> clause returns False: the model client, the search tools, the CRM
  tools, the SQL tool, the retriever tool (absent when the vector store service cannot
  provide it), the assignment of \<^verbatim>\<open>self.tools\<close>, and the executor.
\<close>

definition AgentService_initialize :: "environment \<Rightarrow> world \<Rightarrow> bool \<times> world" where
  "AgentService_initialize env w =
     (if agent_executor (agent_service w) \<noteq> None then (True, w)
      else
        (case new_ChatOpenAI env of
           Raises e \<Rightarrow> (False, w)
         | Returns l \<Rightarrow>
             (let w1 = w\<lparr>agent_service := (agent_service w)\<lparr>llm := Some l\<rparr>\<rparr> in
              (case get_all_search_tools env of
                 Raises e \<Rightarrow> (False, w1)
               | Returns search_tools \<Rightarrow>
                   (let crm_tools = get_all_crm_tools;
                        sql_tool = get_sql_tool;
                        (rt, f) = get_retriever_tool env (faiss_service w1);
                        all_tools = search_tools @ crm_tools @ [sql_tool] @
                          (case rt of Some t \<Rightarrow> [t] | None \<Rightarrow> []);
                        w2 = w1\<lparr>agent_service := (agent_service w1)\<lparr>tools := all_tools\<rparr>,
                                faiss_service := f\<rparr>
                    in
                    (case create_react_agent env l all_tools of
                       Raises e \<Rightarrow> (False, w2)
                     | Returns ex \<Rightarrow>
                         (True, w2\<lparr>agent_service :=
                                     (agent_service w2)\<lparr>agent_executor := Some ex\<rparr>\<rparr>)))))))"

definition AgentService_is_ready :: "world \<Rightarrow> bool" where
  "AgentService_is_ready w = (agent_executor (agent_service w) \<noteq> None)"

record agent_info =
  ai_initialized :: bool
  ai_model :: "string option"
  ai_tools_count :: nat
  ai_tools :: "string list"
  ai_system_message :: "string option"

definition AgentService_get_info :: "environment \<Rightarrow> world \<Rightarrow> agent_info" where
  "AgentService_get_info env w =
     \<lparr>ai_initialized = AgentService_is_ready w,
      ai_model = (if llm (agent_service w) \<noteq> None then Some (agent_model_name env) else None),
      ai_tools_count = length (tools (agent_service w)),
      ai_tools = map tool_name (tools (agent_service w)),
      ai_system_message = system_message (agent_service w)\<rparr>"

text \<open>
  The message list of \<^verbatim>\<open>invoke\<close> and \<^verbatim>\<open>stream\<close>. An entry of the history
  is a dictionary with the keys role and content, here a pair. The loop appends a human
  message for the role user and an assistant message for the role assistant; there is no
  branch for any other role.
\<close>

fun history_messages :: "(string \<times> string) list \<Rightarrow> message list \<Rightarrow> message list" where
  "history_messages [] messages = messages"
| "history_messages ((r, c) # rest) messages =
     (if r = ''user'' then history_messages rest (messages @ [HumanMessage c])
      else if r = ''assistant'' then history_messages rest (messages @ [AIMessage c []])
      else history_messages rest messages)"

definition build_messages ::
  "string option \<Rightarrow> string \<Rightarrow> (string \<times> string) list option \<Rightarrow> message list" where
  "build_messages sys_msg msg history =
     (let m0 = (case sys_msg of
                  None \<Rightarrow> []
                | Some text \<Rightarrow> (if text = [] then [] else [SystemMessage text]));
          m1 = (case history of
                  None \<Rightarrow> m0
                | Some h \<Rightarrow> history_messages h m0)
      in m1 @ [HumanMessage msg])"

text \<open>The text of the AttributeError that a method call on None raises.\<close>

definition NoneType_has_no_attribute :: "string \<Rightarrow> string" where
  "NoneType_has_no_attribute attr =
     [CHR 0x27] @ ''NoneType'' @ [CHR 0x27] @ '' object has no attribute '' @
     [CHR 0x27] @ attr @ [CHR 0x27]"

text \<open>
  \<^verbatim>\<open>invoke\<close>: a missing executor triggers initialisation, whose result is not
  looked at; calling the executor when it is still missing raises an AttributeError. Any
  exception is logged and raised again.
\<close>

definition AgentService_invoke ::
  "environment \<Rightarrow> world \<Rightarrow> string \<Rightarrow> (string \<times> string) list option \<Rightarrow>
     (string \<rightharpoonup> message list) outcome \<times> world" where
  "AgentService_invoke env w msg history =
     (let w1 = (if agent_executor (agent_service w) = None
                then snd (AgentService_initialize env w) else w);
          messages = build_messages (system_message (agent_service w1)) msg history
      in
      (case agent_executor (agent_service w1) of
         None \<Rightarrow> (Raises (NoneType_has_no_attribute ''invoke''), w1)
       | Some ex \<Rightarrow> (executor_invoke env ex messages, w1)))"

text \<open>
  \<^verbatim>\<open>stream\<close>: the chunks of the executor's stream are passed on one by one until
  the stream is exhausted or raises.
\<close>

definition AgentService_stream ::
  "environment \<Rightarrow> world \<Rightarrow> string \<Rightarrow> (string \<times> string) list option \<Rightarrow>
     ((string \<rightharpoonup> any) list \<times> stream_end) \<times> world" where
  "AgentService_stream env w msg history =
     (let w1 = (if agent_executor (agent_service w) = None
                then snd (AgentService_initialize env w) else w);
          messages = build_messages (system_message (agent_service w1)) msg history
      in
      (case agent_executor (agent_service w1) of
         None \<Rightarrow> (([], Raised (NoneType_has_no_attribute ''astream'')), w1)
       | Some ex \<Rightarrow> (executor_astream env ex messages, w1)))"

section \<open>Dependencies of the endpoints (api/dependencies.py)\<close>

datatype http_exception = HTTPException nat string

text \<open>
  \<^verbatim>\<open>get_agent_service\<close> initialises the agent service on demand and raises the
  HTTP exception 503 when that fails.
\<close>

definition get_agent_service :: "environment \<Rightarrow> world \<Rightarrow> (http_exception + unit) \<times> world" where
  "get_agent_service env w =
     (if \<not> AgentService_is_ready w then
        (case AgentService_initialize env w of
           (False, w') \<Rightarrow> (Inl (HTTPException 503 ''Agent service initialization failed''), w')
         | (True, w') \<Rightarrow> (Inr (), w'))
      else (Inr (), w))"

text \<open>
  \<^verbatim>\<open>get_faiss_service\<close> tries to initialise the vector store service on demand;
  a failure is logged as a warning and the service is returned as it is.
\<close>

definition get_faiss_service :: "environment \<Rightarrow> world \<Rightarrow> world" where
  "get_faiss_service env w =
     (if \<not> FAISSService_is_ready (faiss_service w) then
        w\<lparr>faiss_service := snd (FAISSService_initialize env (faiss_service w))\<rparr>
      else w)"

definition get_customer_manager :: "crm_env \<Rightarrow> CustomerManager outcome" where
  "get_customer_manager cenv =
     new_CustomerManager cenv (''sqlite:///'' @ crm_database_full_path cenv)"

section \<open>Exception handlers (api/middleware.py, registered in main.py)\<close>

text \<open>
  A validation error of the request body: the location of the offending value, as the
  framework reports it, and the kind of failure. The error message and the type string of
  the framework are renderings of the kind.
\<close>

datatype loc_item = Key string | Index nat

datatype error_kind = StringTooShort | StringTooLong | EnumValue

record validation_error =
  loc :: "loc_item list"
  kind :: error_kind

record formatted_error =
  field :: string
  field_kind :: error_kind

text \<open>
  The response of an endpoint: the status code with the body of the handler, or an error
  body. Of the error body the status code and the detail are kept.
\<close>

datatype 'a http_response =
    Response nat 'a
  | ErrorResponse nat string
  | ValidationErrorResponse nat "formatted_error list"

primrec status_code :: "'a http_response \<Rightarrow> nat" where
  "status_code (Response c b) = c"
| "status_code (ErrorResponse c d) = c"
| "status_code (ValidationErrorResponse c es) = c"

primrec response_body :: "'a http_response \<Rightarrow> 'a option" where
  "response_body (Response c b) = Some b"
| "response_body (ErrorResponse c d) = None"
| "response_body (ValidationErrorResponse c es) = None"

definition http_exception_handler :: "http_exception \<Rightarrow> 'a http_response" where
  "http_exception_handler exc = (case exc of HTTPException c d \<Rightarrow> ErrorResponse c d)"

definition general_exception_handler :: "string \<Rightarrow> 'a http_response" where
  "general_exception_handler exc = ErrorResponse 500 ''Internal server error occurred''"

primrec str_loc :: "loc_item \<Rightarrow> string" where
  "str_loc (Key k) = k"
| "str_loc (Index i) = show_nat i"

text \<open>\<^verbatim>\<open>sep.join(parts)\<close>\<close>

fun join :: "string \<Rightarrow> string list \<Rightarrow> string" where
  "join sep [] = []"
| "join sep [p] = p"
| "join sep (p # q # ps) = p @ sep @ join sep (q # ps)"



section \<open>Validation of the chat request (the constraints declared in api/models.py)\<close>


definition parse_MessageRole :: "string \<Rightarrow> MessageRole option" where
  "parse_MessageRole s =
     (if s = ''user'' then Some USER
      else if s = ''assistant'' then Some ASSISTANT
      else if s = ''system'' then Some SYSTEM
      else None)"

text \<open>
  The entries of the history, with their index: an entry whose role is not a value of
  the enumeration gives an error at
  \<^verbatim>\<open>("body", "conversation_history", index, "role")\<close>.
\<close>

fun validate_history ::
  "nat \<Rightarrow> (string \<times> string) list \<Rightarrow> validation_error list \<times> ConversationMessage list" where
  "validate_history i [] = ([], [])"
| "validate_history i ((r, c) # rest) =
     (let (errors, msgs) = validate_history (Suc i) rest in
      (case parse_MessageRole r of
         None \<Rightarrow>
           (\<lparr>loc = [Key ''body'', Key ''conversation_history'', Index i, Key ''role''],
             kind = EnumValue\<rparr> # errors, msgs)
       | Some mr \<Rightarrow> (errors, \<lparr>role = mr, content = c\<rparr> # msgs)))"




section \<open>The chat endpoint (api/routes.py, chat)\<close>

text \<open>The class name of a message and its content attribute.\<close>

primrec class_name :: "message \<Rightarrow> string" where
  "class_name (SystemMessage c) = ''SystemMessage''"
| "class_name (HumanMessage c) = ''HumanMessage''"
| "class_name (AIMessage c calls) = ''AIMessage''"
| "class_name (ToolMessage c call) = ''ToolMessage''"

primrec message_content :: "message \<Rightarrow> string" where
  "message_content (SystemMessage c) = c"
| "message_content (HumanMessage c) = c"
| "message_content (AIMessage c calls) = c"
| "message_content (ToolMessage c call) = c"

text \<open>
  The conversion of the request's history to dictionaries, shared by both chat
  endpoints: an absent or empty history stays None.
\<close>

definition history_dicts :: "ChatRequest \<Rightarrow> (string \<times> string) list option" where
  "history_dicts request =
     (case conversation_history request of
        None \<Rightarrow> None
      | Some h \<Rightarrow>
          (if h = [] then None
           else Some (map (\<lambda>m. (MessageRole_value (role m), content m)) h)))"

text \<open>
  The loop over the messages of the result. It keeps the wire history built so far and
  the content of the last assistant message seen.
\<close>

fun collect_history ::
  "message list \<Rightarrow> ConversationMessage list \<times> string \<Rightarrow> ConversationMessage list \<times> string" where
  "collect_history [] acc = acc"
| "collect_history (m # ms) (history, assistant_message) =
     (let msg_type = class_name m; c = message_content m in
      (if msg_type = ''HumanMessage''
       then collect_history ms (history @ [\<lparr>role = USER, content = c\<rparr>], assistant_message)
       else if msg_type = ''AIMessage''
       then collect_history ms (history @ [\<lparr>role = ASSISTANT, content = c\<rparr>], c)
       else collect_history ms (history, assistant_message)))"

text \<open>
  The handler. Every exception inside it becomes the HTTP exception 500.
\<close>

definition chat :: "environment \<Rightarrow> world \<Rightarrow> ChatRequest \<Rightarrow> (http_exception + ChatResponse) \<times> world" where
  "chat env w request =
     (case AgentService_invoke env w (message request) (history_dicts request) of
        (Raises e, w') \<Rightarrow>
          (Inl (HTTPException 500 (''Error processing chat request: '' @ e)), w')
      | (Returns result, w') \<Rightarrow>
          (let messages = (case result ''messages'' of None \<Rightarrow> [] | Some ms \<Rightarrow> ms);
               (history, assistant_message) = collect_history messages ([], [])
           in
           (Inr \<lparr>response_message = assistant_message,
                  response_conversation_history = history,
                  metadata = Some [''response_time_ms'' \<mapsto> (Integer (response_time_ms env)),
                                   ''tools_available'' \<mapsto>
                                      (Integer (int (length (tools (agent_service w')))))]\<rparr>, w')))"

section \<open>The streaming endpoint (api/routes.py, chat\_stream)\<close>

definition start_event :: StreamEvent where
  "start_event = \<lparr>event = START, data = [''message'' \<mapsto> (Str ''Streaming started'')]\<rparr>"

definition end_event :: StreamEvent where
  "end_event = \<lparr>event = END, data = [''message'' \<mapsto> (Str ''Streaming complete'')]\<rparr>"

definition error_event :: "string \<Rightarrow> StreamEvent" where
  "error_event e = \<lparr>event = ERROR, data = [''error'' \<mapsto> (Str e)]\<rparr>"

text \<open>The event type of a chunk, from its top-level keys.\<close>

definition chunk_event_type :: "(string \<rightharpoonup> any) \<Rightarrow> StreamEventType" where
  "chunk_event_type chunk =
     (if ''agent'' \<in> dom chunk then AGENT
      else if ''tools'' \<in> dom chunk then TOOL
      else AGENT)"

text \<open>
  The event for a chunk, and the loop over the agent's stream, inside the generator's \<^verbatim>\<open>try\<close> block. The
  result is the list of events the generator yields, each as one
  \<^verbatim>\<open>data:\<close> line. A chunk is wrapped in an event and serialised; an exception
  of the serialisation or of the stream ends the loop in the \<^verbatim>\<open>except\<close>
  clause, which yields the error event. When the stream is exhausted the end event
  follows. (The start, end and error events carry one text each; their serialisation is
  taken to succeed.)
\<close>

definition chunk_event :: "(string \<rightharpoonup> any) \<Rightarrow> StreamEvent" where
  "chunk_event chunk = \<lparr>event = chunk_event_type chunk, data = chunk\<rparr>"

fun forward_chunks ::
  "environment \<Rightarrow> (string \<rightharpoonup> any) list \<Rightarrow> stream_end \<Rightarrow> StreamEvent list" where
  "forward_chunks env [] Exhausted = [end_event]"
| "forward_chunks env [] (Raised e) = [error_event e]"
| "forward_chunks env (chunk # chunks) fin =
     (case model_dump_json env (chunk_event chunk) of
        Raises e \<Rightarrow> [error_event e]
      | Returns line \<Rightarrow> chunk_event chunk # forward_chunks env chunks fin)"

definition event_generator :: "environment \<Rightarrow> world \<Rightarrow> ChatRequest \<Rightarrow> StreamEvent list \<times> world" where
  "event_generator env w request =
     (case AgentService_stream env w (message request) (history_dicts request) of
        ((chunks, fin), w') \<Rightarrow> (start_event # forward_chunks env chunks fin, w'))"

section \<open>The health endpoint (api/routes.py, health)\<close>

text \<open>
  The handler calls two methods of each service object; a call may raise (the handler
  has an \<^verbatim>\<open>except\<close> clause for it), so the objects are given by the outcomes
  of their methods.
\<close>

record agent_api =
  agent_is_ready :: "bool outcome"
  agent_get_info :: "agent_info outcome"

record faiss_api =
  faiss_is_ready :: "bool outcome"
  faiss_get_info :: "faiss_info outcome"

definition any_of_text :: "string option \<Rightarrow> any" where
  "any_of_text t = (case t of None \<Rightarrow> NoneValue | Some x \<Rightarrow> Str x)"

definition agent_unhealthy :: "string \<Rightarrow> ComponentHealth" where
  "agent_unhealthy e =
     \<lparr>component_status = UNHEALTHY,
      component_message = Some (''Agent service error: '' @ e),
      details = None\<rparr>"

text \<open>
  The check of the agent service: the component entry and the overall status after it
  (the overall status starts as healthy).
\<close>

definition check_agent :: "agent_api \<Rightarrow> ComponentHealth \<times> HealthStatus" where
  "check_agent agent =
     (case agent_is_ready agent of
        Raises e \<Rightarrow> (agent_unhealthy e, UNHEALTHY)
      | Returns True \<Rightarrow>
          (case agent_get_info agent of
             Raises e \<Rightarrow> (agent_unhealthy e, UNHEALTHY)
           | Returns info \<Rightarrow>
               (\<lparr>component_status = HEALTHY,
                 component_message = Some ''Agent service operational'',
                 details = Some [''model'' \<mapsto> (any_of_text (ai_model info)),
                                 ''tools_count'' \<mapsto> (Integer (int (ai_tools_count info)))]\<rparr>,
                HEALTHY))
      | Returns False \<Rightarrow>
          (\<lparr>component_status = UNHEALTHY,
            component_message = Some ''Agent service not initialized'',
            details = None\<rparr>, DEGRADED))"

definition faiss_warning :: "string \<Rightarrow> ComponentHealth" where
  "faiss_warning e =
     \<lparr>component_status = DEGRADED,
      component_message = Some (''FAISS service warning: '' @ e),
      details = None\<rparr>"

text \<open>
  The check of the vector store service. No branch assigns the overall status
  (\<^verbatim>\<open># FAISS is optional, so don't mark as unhealthy\<close>).
\<close>

definition check_faiss :: "faiss_api \<Rightarrow> ComponentHealth" where
  "check_faiss faiss =
     (case faiss_is_ready faiss of
        Raises e \<Rightarrow> faiss_warning e
      | Returns True \<Rightarrow>
          (case faiss_get_info faiss of
             Raises e \<Rightarrow> faiss_warning e
           | Returns info \<Rightarrow>
               \<lparr>component_status = HEALTHY,
                component_message = Some ''FAISS service operational'',
                details = Some [''tool_name'' \<mapsto> (any_of_text (fi_tool_name info)),
                                ''cache_enabled'' \<mapsto> (Boolean (fi_cache_enabled info))]\<rparr>)
      | Returns False \<Rightarrow>
          \<lparr>component_status = DEGRADED,
           component_message = Some ''FAISS service not initialized (optional)'',
           details = None\<rparr>)"

text \<open>
  The check of the database: the customer count is read; an exception makes the
  component and the overall status unhealthy, otherwise the overall status stays what
  it was.
\<close>

definition check_database ::
  "string \<Rightarrow> CustomerManager \<Rightarrow> HealthStatus \<Rightarrow> ComponentHealth \<times> HealthStatus" where
  "check_database database_path customer_db overall_status =
     (case get_customer_count customer_db of
        Raises e \<Rightarrow>
          (\<lparr>component_status = UNHEALTHY,
            component_message = Some (''Database error: '' @ e),
            details = None\<rparr>, UNHEALTHY)
      | Returns customer_count \<Rightarrow>
          (\<lparr>component_status = HEALTHY,
            component_message = Some ''Database accessible'',
            details = Some [''crm_customers'' \<mapsto> (Integer customer_count),
                            ''database_path'' \<mapsto> (Str database_path)]\<rparr>,
           overall_status))"

definition health ::
  "string \<Rightarrow> string \<Rightarrow> agent_api \<Rightarrow> faiss_api \<Rightarrow> CustomerManager \<Rightarrow> HealthResponse" where
  "health now database_path agent faiss customer_db =
     (let (agent_component, overall1) = check_agent agent;
          faiss_component = check_faiss faiss;
          (database_component, overall2) = check_database database_path customer_db overall1
      in
      \<lparr>status = overall2,
       components = [''agent'' \<mapsto> agent_component,
                     ''faiss'' \<mapsto> faiss_component,
                     ''database'' \<mapsto> database_component],
       version = Some ''1.0.0'',
       timestamp = Some now\<rparr>)"

text \<open>The singletons as the handler sees them.\<close>

definition agent_object :: "environment \<Rightarrow> world \<Rightarrow> agent_api" where
  "agent_object env w =
     \<lparr>agent_is_ready = Returns (AgentService_is_ready w),
      agent_get_info = Returns (AgentService_get_info env w)\<rparr>"

definition faiss_object :: "environment \<Rightarrow> world \<Rightarrow> faiss_api" where
  "faiss_object env w =
     \<lparr>faiss_is_ready = Returns (FAISSService_is_ready (faiss_service w)),
      faiss_get_info = Returns (FAISSService_get_info env (faiss_service w))\<rparr>"

text \<open>
  \<^verbatim>\<open>GET /health\<close>: the three dependencies are resolved in the order of the
  handler's parameters, then the handler runs and its result is sent with status 200.
  An HTTP exception of a dependency goes to \<open>http_exception_handler\<close>, any other
  exception to \<open>general_exception_handler\<close>.
\<close>

definition GET_health :: "environment \<Rightarrow> crm_env \<Rightarrow> world \<Rightarrow> HealthResponse http_response \<times> world" where
  "GET_health env cenv w =
     (case get_agent_service env w of
        (Inl exc, w1) \<Rightarrow> (http_exception_handler exc, w1)
      | (Inr _, w1) \<Rightarrow>
          (let w2 = get_faiss_service env w1 in
           (case get_customer_manager cenv of
              Raises e \<Rightarrow> (general_exception_handler e, w2)
            | Returns customer_db \<Rightarrow>
                (Response 200
                   (health (utcnow_isoformat env) (crm_database_full_path cenv)
                      (agent_object env w2) (faiss_object env w2) customer_db), w2))))"

section \<open>Worked inputs\<close>

text \<open>
  The state of the two singletons after their constructors (no system message is
  configured by default), and an environment in which every library call succeeds: no
  index cache on disk, one configured URL, an executor that answers after one tool call.
\<close>

definition initial_world :: world where
  "initial_world =
     \<lparr>agent_service = \<lparr>llm = None, tools = [], agent_executor = None, system_message = None\<rparr>,
      faiss_service = \<lparr>vectorstore = None, retriever = None, retriever_tool = None,
                       embeddings = None\<rparr>\<rparr>"

definition example_chunks :: "(string \<rightharpoonup> any) list" where
  "example_chunks =
     [[''agent'' \<mapsto> (Object ''tool call'')],
      [''tools'' \<mapsto> (Object ''tool result'')],
      [''agent'' \<mapsto> (Object ''answer'')]]"

definition example_env :: environment where
  "example_env =
     \<lparr>agent_model_name = ''gpt-4o'',
      faiss_cache_enabled = True,
      faiss_cache_path = ''.faiss_cache/faiss_index'',
      faiss_tool_name = ''langsmith_search'',
      faiss_urls_list = Returns [''https://docs.smith.langchain.com/''],
      new_ArxivQueryRun = Returns (),
      new_WikipediaQueryRun = Returns (),
      WebBaseLoader_load = (\<lambda>url. Returns [Document url]),
      split_documents = (\<lambda>docs. Returns docs),
      new_OpenAIEmbeddings = Returns OpenAIEmbeddings,
      FAISS_from_documents = (\<lambda>docs emb. Returns (FAISS docs)),
      save_local = (\<lambda>vs. Returns ()),
      cache_path_exists = Returns False,
      FAISS_load_local = (\<lambda>emb. Raises ''no index on disk''),
      as_retriever = (\<lambda>vs. Returns (VectorStoreRetriever vs)),
      create_retriever_tool = (\<lambda>r n. Returns (Tool n)),
      new_ChatOpenAI = Returns (ChatOpenAI ''gpt-4o''),
      create_react_agent = (\<lambda>l ts. Returns (CompiledGraph l ts)),
      executor_invoke = (\<lambda>ex ms. Returns [''messages'' \<mapsto> (ms @ [AIMessage ''4'' []])]),
      executor_astream = (\<lambda>ex ms. (example_chunks, Exhausted)),
      model_dump_json = (\<lambda>ev. Returns ''{}''),
      response_time_ms = 12,
      utcnow_isoformat = ''2024-01-01T00:00:00''\<rparr>"

definition example_request :: ChatRequest where
  "example_request = \<lparr>message = ''What is 2+2?'', conversation_history = None\<rparr>"

text \<open>A CRM database with one known client, and one whose every query fails.\<close>

definition example_customer :: Customer where
  "example_customer =
     \<lparr>customer_id = 1, name = ''Asha Rao'', address = ''12 MG Road, Bengaluru'',
      email = ''asha@example.com'', phone = ''9876543210'', credit = 1500,
      active_status = ACTIVE\<rparr>"

definition example_manager :: CustomerManager where
  "example_manager =
     \<lparr>get_customer = (\<lambda>i. if i = 1 then Returns (Some example_customer) else Returns None),
      get_customer_count = Returns 25\<rparr>"

definition failing_manager :: CustomerManager where
  "failing_manager =
     \<lparr>get_customer = (\<lambda>i. Raises ''database is locked''),
      get_customer_count = Raises ''database is locked''\<rparr>"

definition example_crm_env :: crm_env where
  "example_crm_env =
     \<lparr>crm_database_full_path = ''/app/db/crm.db'',
      new_CustomerManager = (\<lambda>uri. Returns example_manager),
      format_credit = (\<lambda>c. ''1,500.00'')\<rparr>"

text \<open>Service objects for the health handler: healthy ones, and an unavailable vector store.\<close>

definition healthy_agent :: agent_api where
  "healthy_agent =
     \<lparr>agent_is_ready = Returns True,
      agent_get_info = Returns \<lparr>ai_initialized = True, ai_model = Some ''gpt-4o'',
                                ai_tools_count = 9, ai_tools = [], ai_system_message = None\<rparr>\<rparr>"

definition healthy_faiss :: faiss_api where
  "healthy_faiss =
     \<lparr>faiss_is_ready = Returns True,
      faiss_get_info = Returns \<lparr>fi_initialized = True, fi_vectorstore_type = Some ''FAISS'',
                                fi_tool_name = Some ''langsmith_search'',
                                fi_cache_enabled = True, fi_cache_path = None\<rparr>\<rparr>"

definition unavailable_faiss :: faiss_api where
  "unavailable_faiss =
     \<lparr>faiss_is_ready = Returns False,
      faiss_get_info = Returns \<lparr>fi_initialized = False, fi_vectorstore_type = None,
                                fi_tool_name = None, fi_cache_enabled = True,
                                fi_cache_path = None\<rparr>\<rparr>"

text \<open>An environment in which the vector store cannot be built: no URL is configured.\<close>

definition no_faiss_env :: environment where
  "no_faiss_env = example_env\<lparr>faiss_urls_list := Returns []\<rparr>"

text \<open>An environment in which the model client cannot be created.\<close>

definition no_llm_env :: environment where
  "no_llm_env = example_env\<lparr>new_ChatOpenAI := Raises ''api_key must be set''\<rparr>"

text \<open>An environment in which the ArXiv search tool cannot be created.\<close>

definition no_arxiv_env :: environment where
  "no_arxiv_env =
     example_env\<lparr>new_ArxivQueryRun := Raises ''Could not import arxiv python package''\<rparr>"

text \<open>
  An executor whose run calls one tool: it appends the assistant message with the tool
  call, the tool message with the result, and the final assistant message.
\<close>

definition tool_call_env :: environment where
  "tool_call_env =
     example_env\<lparr>executor_invoke := (\<lambda>ex ms. Returns [''messages'' \<mapsto>
        (ms @ [AIMessage '''' [\<lparr>call_name = ''get_business_client_count'', call_args = ''{}'',
                                 call_id = ''call_1''\<rparr>],
               ToolMessage ''Total Business Clients: 25'' ''call_1'',
               AIMessage ''There are 25 business clients.'' []])])\<rparr>"

definition count_request :: ChatRequest where
  "count_request = \<lparr>message = ''How many clients are there?'', conversation_history = None\<rparr>"







section \<open>Properties of the streaming endpoint\<close>

lemma chunk_event_type_cases: "chunk_event_type c = AGENT \<or> chunk_event_type c = TOOL"
  by (simp add: chunk_event_type_def)

lemma event_chunk_event: "event (chunk_event c) = AGENT \<or> event (chunk_event c) = TOOL"
  using chunk_event_type_cases[of c] by (simp add: chunk_event_def)

lemma forward_chunks_not_Nil: "forward_chunks env chunks fin \<noteq> []"
  by (induction env chunks fin rule: forward_chunks.induct) (simp_all split: outcome.split)

lemma forward_chunks_steps:
  "ev \<in> set (butlast (forward_chunks env chunks fin)) \<Longrightarrow> event ev = AGENT \<or> event ev = TOOL"
proof (induction env chunks fin rule: forward_chunks.induct)
  case (1 env)
  then show ?case by simp
next
  case (2 env e)
  then show ?case by simp
next
  case (3 env chunk chunks fin)
  show ?case
  proof (cases "model_dump_json env (chunk_event chunk)")
    case (Raises e)
    with 3 show ?thesis by simp
  next
    case (Returns line)
    with 3(2) have "ev = chunk_event chunk \<or> ev \<in> set (butlast (forward_chunks env chunks fin))"
      by (simp add: forward_chunks_not_Nil)
    then show ?thesis
      using 3(1)[OF Returns] event_chunk_event[of chunk] by auto
  qed
qed

lemma forward_chunks_last:
  "last (forward_chunks env chunks fin) = end_event \<or>
   (\<exists>e. last (forward_chunks env chunks fin) = error_event e)"
  by (induction env chunks fin rule: forward_chunks.induct)
    (auto simp: forward_chunks_not_Nil split: outcome.split)

lemma forward_chunks_Raised:
  "\<exists>e'. last (forward_chunks env chunks (Raised e)) = error_event e'"
  by (induction chunks) (auto simp: forward_chunks_not_Nil split: outcome.split)

lemma forward_chunks_Exhausted:
  "(\<forall>c \<in> set chunks. \<exists>line. model_dump_json env (chunk_event c) = Returns line) \<Longrightarrow>
   forward_chunks env chunks Exhausted = map chunk_event chunks @ [end_event]"
  by (induction chunks) auto

lemmas service_defs =
  AgentService_initialize_def get_all_search_tools_def get_arxiv_tool_def get_wikipedia_tool_def
  get_duckduckgo_tool_def get_all_crm_tools_def get_sql_tool_def get_retriever_tool_def
  load_from_disk_def FAISSService_initialize_def make_retriever_tool_def
  AgentService_stream_def AgentService_invoke_def build_messages_def history_dicts_def Let_def

lemma example_stream:
  "fst (AgentService_stream example_env initial_world (message example_request)
     (history_dicts example_request)) = (example_chunks, Exhausted)"
  by (simp add: service_defs example_env_def initial_world_def example_request_def)

lemma example_stream_raised:
  "fst (AgentService_stream
          (example_env\<lparr>executor_astream := (\<lambda>ex ms. ([], Raised ''model call failed''))\<rparr>)
          initial_world (message example_request) (history_dicts example_request)) =
   ([], Raised ''model call failed'')"
  by (simp add: service_defs example_env_def initial_world_def example_request_def)

text \<open>
  Claim C4. Every streaming run of \<^verbatim>\<open>POST /chat-stream\<close> yields the start event
  first, then only events of type agent or tool, then exactly one last event, which is
  the end event or an error event; nothing follows it. When the agent's stream raises,
  the last event is an error event; when the stream is exhausted and every chunk was
  serialised, the last event is the end event and the steps are the chunks in order.
\<close>

theorem C4_stream_event_sequence:
  "\<exists>chunks fin steps terminal w'.
     AgentService_stream env w (message request) (history_dicts request) = ((chunks, fin), w') \<and>
     event_generator env w request = (start_event # steps @ [terminal], w') \<and>
     event start_event = START \<and>
     (\<forall>ev \<in> set steps. event ev = AGENT \<or> event ev = TOOL) \<and>
     ((terminal = end_event \<and> event terminal = END) \<or>
      (\<exists>e. terminal = error_event e \<and> event terminal = ERROR)) \<and>
     (\<forall>e. fin = Raised e \<longrightarrow> event terminal = ERROR) \<and>
     (fin = Exhausted \<and>
        (\<forall>c \<in> set chunks. \<exists>line. model_dump_json env (chunk_event c) = Returns line) \<longrightarrow>
      terminal = end_event \<and> steps = map chunk_event chunks)"
proof -
  obtain chunks fin w' where
    st: "AgentService_stream env w (message request) (history_dicts request) = ((chunks, fin), w')"
    by (metis prod.exhaust)
  let ?out = "forward_chunks env chunks fin"
  define steps where "steps = butlast ?out"
  define terminal where "terminal = last ?out"
  have out: "?out = steps @ [terminal]"
    by (simp add: steps_def terminal_def forward_chunks_not_Nil)
  have gen: "event_generator env w request = (start_event # steps @ [terminal], w')"
    by (simp add: event_generator_def st out)
  have a: "event start_event = START"
    by (simp add: start_event_def)
  have b: "\<forall>ev \<in> set steps. event ev = AGENT \<or> event ev = TOOL"
    unfolding steps_def using forward_chunks_steps by blast
  have c: "(terminal = end_event \<and> event terminal = END) \<or>
      (\<exists>e. terminal = error_event e \<and> event terminal = ERROR)"
    unfolding terminal_def using forward_chunks_last[of env chunks fin]
    by (auto simp: end_event_def error_event_def)
  have d: "\<forall>e. fin = Raised e \<longrightarrow> event terminal = ERROR"
  proof (intro allI impI)
    fix e assume "fin = Raised e"
    then obtain e' where "terminal = error_event e'"
      unfolding terminal_def using forward_chunks_Raised[of env chunks e] by auto
    then show "event terminal = ERROR" by (simp add: error_event_def)
  qed
  have e: "fin = Exhausted \<and>
        (\<forall>c \<in> set chunks. \<exists>line. model_dump_json env (chunk_event c) = Returns line) \<longrightarrow>
      terminal = end_event \<and> steps = map chunk_event chunks"
    unfolding terminal_def steps_def using forward_chunks_Exhausted[of chunks env] by auto
  show ?thesis using st gen a b c d e by blast
qed

text \<open>
  The theorem at two runs from the initial state: one whose stream has three chunks and
  is exhausted, one whose stream raises at once.
\<close>

theorem C4_stream_event_sequence_witness:
  "(\<exists>w'. event_generator example_env initial_world example_request =
      (start_event # map chunk_event example_chunks @ [end_event], w')) \<and>
   (\<exists>steps terminal w'.
      event_generator
        (example_env\<lparr>executor_astream := (\<lambda>ex ms. ([], Raised ''model call failed''))\<rparr>)
        initial_world example_request = (start_event # steps @ [terminal], w') \<and>
      event terminal = ERROR)"
proof
  from C4_stream_event_sequence[of example_env initial_world example_request]
  obtain chunks fin steps terminal w' where
    st: "AgentService_stream example_env initial_world (message example_request)
           (history_dicts example_request) = ((chunks, fin), w')"
    and gen: "event_generator example_env initial_world example_request =
           (start_event # steps @ [terminal], w')"
    and ok: "fin = Exhausted \<and>
        (\<forall>c \<in> set chunks. \<exists>line. model_dump_json example_env (chunk_event c) = Returns line) \<longrightarrow>
      terminal = end_event \<and> steps = map chunk_event chunks"
    by blast
  from st example_stream have cf: "chunks = example_chunks" "fin = Exhausted"
    by simp_all
  have "\<forall>c \<in> set chunks. \<exists>line. model_dump_json example_env (chunk_event c) = Returns line"
    by (simp add: example_env_def)
  with ok cf have "terminal = end_event \<and> steps = map chunk_event example_chunks"
    by simp
  with gen show "\<exists>w'. event_generator example_env initial_world example_request =
      (start_event # map chunk_event example_chunks @ [end_event], w')"
    by blast
next
  let ?env = "example_env\<lparr>executor_astream := (\<lambda>ex ms. ([], Raised ''model call failed''))\<rparr>"
  from C4_stream_event_sequence[of ?env initial_world example_request]
  obtain chunks fin steps terminal w' where
    st: "AgentService_stream ?env initial_world (message example_request)
           (history_dicts example_request) = ((chunks, fin), w')"
    and gen: "event_generator ?env initial_world example_request =
           (start_event # steps @ [terminal], w')"
    and r: "\<forall>e. fin = Raised e \<longrightarrow> event terminal = ERROR"
    by blast
  from st example_stream_raised have "fin = Raised ''model call failed''"
    by simp
  with r have "event terminal = ERROR"
    by blast
  with gen show "\<exists>steps terminal w'.
      event_generator ?env initial_world example_request =
        (start_event # steps @ [terminal], w') \<and> event terminal = ERROR"
    by blast
qed




section \<open>Properties of the health endpoint\<close>

lemma status_health:
  "status (health now path agent faiss db) =
   snd (check_database path db (snd (check_agent agent)))"
  by (simp add: health_def split: prod.split)

lemma components_health:
  "components (health now path agent faiss db) =
     [''agent'' \<mapsto> fst (check_agent agent), ''faiss'' \<mapsto> check_faiss faiss,
      ''database'' \<mapsto> fst (check_database path db (snd (check_agent agent)))]"
  by (simp add: health_def split: prod.split)

lemma GET_health_Response:
  assumes "GET_health env cenv w = (Response code body, w')"
  shows "\<exists>db. get_customer_manager cenv = Returns db \<and> code = 200 \<and>
           body = health (utcnow_isoformat env) (crm_database_full_path cenv)
                    (agent_object env w') (faiss_object env w') db"
  using assms
  by (auto simp: GET_health_def http_exception_handler_def general_exception_handler_def Let_def
      split: prod.splits sum.splits http_exception.splits outcome.splits)

lemma get_agent_service_cases:
  "get_agent_service env w =
     (if AgentService_is_ready w then (Inr (), w)
      else if fst (AgentService_initialize env w)
      then (Inr (), snd (AgentService_initialize env w))
      else (Inl (HTTPException 503 ''Agent service initialization failed''),
            snd (AgentService_initialize env w)))"
  by (simp add: get_agent_service_def split: prod.split bool.split)

lemma example_initialize: "fst (AgentService_initialize example_env initial_world)"
  by (simp add: service_defs example_env_def initial_world_def)

lemma no_llm_initialize: "\<not> fst (AgentService_initialize no_llm_env initial_world)"
  by (simp add: service_defs no_llm_env_def example_env_def initial_world_def)

text \<open>
  Claim C2. When the database check of the health handler fails, that is when reading
  the customer count raises, the overall status is unhealthy (so never healthy) and the
  database component is unhealthy, whatever the agent and the vector store objects
  answer. The same holds for the body of every response that \<^verbatim>\<open>GET /health\<close>
  sends with such a database.
\<close>

theorem C2_database_failure_unhealthy:
  assumes "get_customer_count customer_db = Raises e"
  shows "status (health now path agent faiss customer_db) = UNHEALTHY \<and>
         status (health now path agent faiss customer_db) \<noteq> HEALTHY \<and>
         map_option component_status
           (components (health now path agent faiss customer_db) ''database'') = Some UNHEALTHY \<and>
         (\<forall>env cenv w code body w'.
            get_customer_manager cenv = Returns customer_db \<and>
            GET_health env cenv w = (Response code body, w') \<longrightarrow> status body = UNHEALTHY)"
proof -
  have a: "\<And>now path agent faiss. status (health now path agent faiss customer_db) = UNHEALTHY"
    using assms by (simp add: status_health check_database_def)
  have b: "map_option component_status
             (components (health now path agent faiss customer_db) ''database'') = Some UNHEALTHY"
    using assms by (simp add: components_health check_database_def)
  have c: "\<forall>env cenv w code body w'.
             get_customer_manager cenv = Returns customer_db \<and>
             GET_health env cenv w = (Response code body, w') \<longrightarrow> status body = UNHEALTHY"
  proof (intro allI impI)
    fix env cenv w code body w'
    assume h: "get_customer_manager cenv = Returns customer_db \<and>
               GET_health env cenv w = (Response code body, w')"
    then have "\<exists>now path agent faiss. body = health now path agent faiss customer_db"
      using GET_health_Response[of env cenv w code body w'] by auto
    then show "status body = UNHEALTHY"
      using a by blast
  qed
  show ?thesis
    using a b c by simp
qed

text \<open>
  The theorem with healthy agent and vector store objects and a database whose queries
  raise; and at the endpoint, from the initial state.
\<close>

theorem C2_database_failure_unhealthy_witness:
  "status (health ''2024-01-01T00:00:00'' ''/app/db/crm.db'' healthy_agent healthy_faiss
      failing_manager) = UNHEALTHY \<and>
   (\<exists>body w'.
      GET_health example_env
        (example_crm_env\<lparr>new_CustomerManager := (\<lambda>uri. Returns failing_manager)\<rparr>)
        initial_world = (Response 200 body, w') \<and>
      status body = UNHEALTHY)"
proof -
  have h: "get_customer_count failing_manager = Raises ''database is locked''"
    by (simp add: failing_manager_def)
  let ?cenv = "example_crm_env\<lparr>new_CustomerManager := (\<lambda>uri. Returns failing_manager)\<rparr>"
  have m: "get_customer_manager ?cenv = Returns failing_manager"
    by (simp add: get_customer_manager_def example_crm_env_def)
  have "\<exists>body w'. GET_health example_env ?cenv initial_world = (Response 200 body, w')"
    by (simp add: GET_health_def get_agent_service_cases example_initialize m Let_def)
  then show ?thesis
    using C2_database_failure_unhealthy[OF h] m by blast
qed

text \<open>
  Claim C3, as stated, says that the overall status is degraded when only the vector
  store is unavailable. The handler leaves the overall status healthy: with a healthy
  agent object, an unavailable vector store object and a working database; and at the
  endpoint, from the initial state, when no URL is configured for the vector store.
\<close>

theorem C3_overall_status_counterexample:
  "status (health ''2024-01-01T00:00:00'' ''/app/db/crm.db'' healthy_agent unavailable_faiss
      example_manager) = HEALTHY \<and>
   HEALTHY \<noteq> DEGRADED \<and>
   map_option status
     (response_body (fst (GET_health no_faiss_env example_crm_env initial_world))) =
     Some HEALTHY"
  by (simp add: status_health check_database_def check_agent_def healthy_agent_def
      example_manager_def GET_health_def get_agent_service_def get_faiss_service_def
      get_customer_manager_def AgentService_is_ready_def FAISSService_is_ready_def
      service_defs no_faiss_env_def example_env_def example_crm_env_def initial_world_def
      agent_object_def faiss_object_def)

text \<open>
  Claim C3, amended. For every health check in which the vector store object is
  unavailable (not ready, or one of its two calls raises) while the agent object is
  ready and the customer count can be read, the overall status is healthy, the entry
  \<^verbatim>\<open>faiss\<close> of the components has status degraded, and the entries
  \<^verbatim>\<open>agent\<close> and \<^verbatim>\<open>database\<close> have status healthy.
\<close>

theorem C3_faiss_unavailable:
  assumes "agent_is_ready agent = Returns True" and "agent_get_info agent = Returns info"
    and "faiss_is_ready faiss = Returns False \<or> (\<exists>e. faiss_is_ready faiss = Raises e) \<or>
         (\<exists>e. faiss_get_info faiss = Raises e)"
    and "get_customer_count customer_db = Returns n"
  shows "status (health now path agent faiss customer_db) = HEALTHY \<and>
         map_option component_status
           (components (health now path agent faiss customer_db) ''faiss'') = Some DEGRADED \<and>
         map_option component_status
           (components (health now path agent faiss customer_db) ''agent'') = Some HEALTHY \<and>
         map_option component_status
           (components (health now path agent faiss customer_db) ''database'') = Some HEALTHY"
proof -
  have a: "component_status (fst (check_agent agent)) = HEALTHY"
    using assms(1,2) by (simp add: check_agent_def)
  have s: "snd (check_agent agent) = HEALTHY"
    using assms(1,2) by (simp add: check_agent_def)
  have f: "component_status (check_faiss faiss) = DEGRADED"
  proof (cases "faiss_is_ready faiss")
    case (Raises e)
    then show ?thesis
      by (simp add: check_faiss_def faiss_warning_def)
  next
    case (Returns ready)
    show ?thesis
    proof (cases ready)
      case True
      with Returns assms(3) obtain e where "faiss_get_info faiss = Raises e"
        by auto
      with Returns True show ?thesis
        by (simp add: check_faiss_def faiss_warning_def)
    next
      case False
      with Returns show ?thesis
        by (simp add: check_faiss_def)
    qed
  qed
  have d: "\<And>s. snd (check_database path customer_db s) = s \<and>
             component_status (fst (check_database path customer_db s)) = HEALTHY"
    using assms(4) by (simp add: check_database_def)
  show ?thesis
    by (simp add: status_health components_health a f d s)
qed

theorem C3_faiss_unavailable_witness:
  "status (health ''2024-01-01T00:00:00'' ''/app/db/crm.db'' healthy_agent unavailable_faiss
      example_manager) = HEALTHY \<and>
   map_option component_status
     (components (health ''2024-01-01T00:00:00'' ''/app/db/crm.db'' healthy_agent
        unavailable_faiss example_manager) ''faiss'') = Some DEGRADED"
proof -
  have 1: "agent_is_ready healthy_agent = Returns True"
    by (simp add: healthy_agent_def)
  have 2: "agent_get_info healthy_agent =
             Returns \<lparr>ai_initialized = True, ai_model = Some ''gpt-4o'', ai_tools_count = 9,
                      ai_tools = [], ai_system_message = None\<rparr>"
    by (simp add: healthy_agent_def)
  have 3: "faiss_is_ready unavailable_faiss = Returns False \<or>
           (\<exists>e. faiss_is_ready unavailable_faiss = Raises e) \<or>
           (\<exists>e. faiss_get_info unavailable_faiss = Raises e)"
    by (simp add: unavailable_faiss_def)
  have 4: "get_customer_count example_manager = Returns 25"
    by (simp add: example_manager_def)
  show ?thesis
    using C3_faiss_unavailable[OF 1 2 3 4] by blast
qed

text \<open>
  Claim C5, as stated, says that \<^verbatim>\<open>GET /health\<close> always answers 200, also when
  the agent service cannot be initialised. From the initial state, when the model client
  cannot be created, the dependency raises and the answer is 503.
\<close>

theorem C5_status_503_counterexample:
  "status_code (fst (GET_health no_llm_env example_crm_env initial_world)) = 503 \<and>
   status_code (fst (GET_health no_llm_env example_crm_env initial_world)) \<noteq> 200"
  by (simp add: GET_health_def get_agent_service_def AgentService_is_ready_def
      AgentService_initialize_def no_llm_env_def example_env_def initial_world_def
      http_exception_handler_def)

text \<open>
  Claim C5, amended. \<^verbatim>\<open>GET /health\<close> answers 200 with the health report in the
  body whenever its dependencies are resolved, that is whenever the agent service is
  ready or is initialised on demand and the customer manager is constructed; the checks
  inside the handler never change the status code. When the agent service is not ready
  and cannot be initialised the answer is 503, and when the customer manager cannot be
  constructed it is 500.
\<close>

theorem C5_health_status_code:
  "((AgentService_is_ready w \<or> fst (AgentService_initialize env w)) \<and>
      get_customer_manager cenv = Returns db \<longrightarrow>
      (\<exists>body w'. GET_health env cenv w = (Response 200 body, w'))) \<and>
   (\<not> AgentService_is_ready w \<and> \<not> fst (AgentService_initialize env w) \<longrightarrow>
      (\<exists>w'. GET_health env cenv w =
         (ErrorResponse 503 ''Agent service initialization failed'', w'))) \<and>
   ((AgentService_is_ready w \<or> fst (AgentService_initialize env w)) \<and>
      get_customer_manager cenv = Raises e \<longrightarrow>
      (\<exists>w'. GET_health env cenv w = (ErrorResponse 500 ''Internal server error occurred'', w')))"
  by (simp add: Let_def GET_health_def get_agent_service_cases http_exception_handler_def
      general_exception_handler_def)

theorem C5_health_status_code_witness:
  "(\<exists>body w'. GET_health example_env example_crm_env initial_world = (Response 200 body, w')) \<and>
   (\<exists>w'. GET_health no_llm_env example_crm_env initial_world =
      (ErrorResponse 503 ''Agent service initialization failed'', w'))"
proof -
  have m: "get_customer_manager example_crm_env = Returns example_manager"
    by (simp add: get_customer_manager_def example_crm_env_def)
  have n: "\<not> AgentService_is_ready initial_world"
    by (simp add: AgentService_is_ready_def initial_world_def)
  show ?thesis
    using C5_health_status_code[of initial_world example_env example_crm_env example_manager]
      C5_health_status_code[of initial_world no_llm_env example_crm_env]
      example_initialize no_llm_initialize m n
    by blast
qed

section \<open>Properties of the initialisation of the agent service\<close>

lemma initialize_ready:
  "agent_executor (agent_service w) \<noteq> None \<Longrightarrow> AgentService_initialize env w = (True, w)"
  by (simp add: AgentService_initialize_def)

lemma initialize_success_ready:
  "fst (AgentService_initialize env w) \<Longrightarrow>
   agent_executor (agent_service (snd (AgentService_initialize env w))) \<noteq> None"
  by (auto simp: AgentService_initialize_def Let_def split: outcome.splits prod.splits if_splits)

lemma initialize_not_ready:
  assumes "agent_executor (agent_service w) = None" and "new_ChatOpenAI env = Returns l"
  shows "AgentService_initialize env w =
     (let w1 = w\<lparr>agent_service := (agent_service w)\<lparr>llm := Some l\<rparr>\<rparr> in
      case get_all_search_tools env of
        Raises e \<Rightarrow> (False, w1)
      | Returns search_tools \<Rightarrow>
          (let rt = fst (get_retriever_tool env (faiss_service w));
               all_tools = search_tools @ get_all_crm_tools @ [get_sql_tool] @
                  (case rt of Some t \<Rightarrow> [t] | None \<Rightarrow> []);
               w2 = w1\<lparr>agent_service := (agent_service w1)\<lparr>tools := all_tools\<rparr>,
                       faiss_service := snd (get_retriever_tool env (faiss_service w))\<rparr>
           in case create_react_agent env l all_tools of
                Raises e \<Rightarrow> (False, w2)
              | Returns ex \<Rightarrow>
                  (True, w2\<lparr>agent_service := (agent_service w2)\<lparr>agent_executor := Some ex\<rparr>\<rparr>)))"
  using assms by (simp add: AgentService_initialize_def Let_def split: prod.split outcome.split)

text \<open>
  Claim C6, as stated, says that each of the four tool sources may fail and that the
  initialisation then continues with the tools of the other sources. When the ArXiv tool
  cannot be created, \<^verbatim>\<open>get_all_search_tools\<close> raises, the initialisation returns
  False, and no tool is registered.
\<close>

theorem C6_search_source_counterexample:
  "\<not> fst (AgentService_initialize no_arxiv_env initial_world) \<and>
   tools (agent_service (snd (AgentService_initialize no_arxiv_env initial_world))) = [] \<and>
   agent_executor (agent_service (snd (AgentService_initialize no_arxiv_env initial_world))) = None"
  by (simp add: service_defs no_arxiv_env_def example_env_def initial_world_def)

text \<open>
  Claim C6, amended. Of the four tool sources only the optional document retriever may
  be missing: when the agent service is not yet initialised and the model client, the
  search tools and the executor can be created, the initialisation succeeds with the
  search tools, the five CRM tools and the SQL tool, followed by the retriever tool only
  if the vector store service provides one, and the service information lists the names
  of the tools that were loaded. When the search tools cannot be created, the
  initialisation returns False, registers no tool and creates no executor.
\<close>

theorem C6_partial_population:
  assumes "agent_executor (agent_service w) = None" and "new_ChatOpenAI env = Returns l"
  shows "(\<forall>search_tools.
            get_all_search_tools env = Returns search_tools \<and>
            (\<forall>ts. \<exists>ex. create_react_agent env l ts = Returns ex) \<longrightarrow>
            fst (AgentService_initialize env w) \<and>
            tools (agent_service (snd (AgentService_initialize env w))) =
              search_tools @ get_all_crm_tools @ [get_sql_tool] @
              (case fst (get_retriever_tool env (faiss_service w)) of
                 Some t \<Rightarrow> [t] | None \<Rightarrow> []) \<and>
            ai_tools (AgentService_get_info env (snd (AgentService_initialize env w))) =
              map tool_name (tools (agent_service (snd (AgentService_initialize env w))))) \<and>
         (\<forall>e. get_all_search_tools env = Raises e \<longrightarrow>
            \<not> fst (AgentService_initialize env w) \<and>
            tools (agent_service (snd (AgentService_initialize env w))) =
              tools (agent_service w) \<and>
            agent_executor (agent_service (snd (AgentService_initialize env w))) = None)"
proof (intro conjI allI impI)
  fix search_tools
  assume h: "get_all_search_tools env = Returns search_tools \<and>
            (\<forall>ts. \<exists>ex. create_react_agent env l ts = Returns ex)"
  let ?all = "search_tools @ get_all_crm_tools @ [get_sql_tool] @
              (case fst (get_retriever_tool env (faiss_service w)) of
                 Some t \<Rightarrow> [t] | None \<Rightarrow> [])"
  from h obtain ex where ex: "create_react_agent env l ?all = Returns ex"
    by blast
  show "fst (AgentService_initialize env w)"
    using h ex by (simp add: initialize_not_ready[OF assms] Let_def)
  show "tools (agent_service (snd (AgentService_initialize env w))) = ?all"
    using h ex by (simp add: initialize_not_ready[OF assms] Let_def)
  show "ai_tools (AgentService_get_info env (snd (AgentService_initialize env w))) =
          map tool_name (tools (agent_service (snd (AgentService_initialize env w))))"
    by (simp add: AgentService_get_info_def)
next
  fix e
  assume h: "get_all_search_tools env = Raises e"
  show "\<not> fst (AgentService_initialize env w)"
    using h by (simp add: initialize_not_ready[OF assms] Let_def)
  show "tools (agent_service (snd (AgentService_initialize env w))) = tools (agent_service w)"
    using h by (simp add: initialize_not_ready[OF assms] Let_def)
  show "agent_executor (agent_service (snd (AgentService_initialize env w))) = None"
    using h assms(1) by (simp add: initialize_not_ready[OF assms] Let_def)
qed

text \<open>
  The theorem from the initial state: without a vector store the nine other tools are
  registered; without the ArXiv tool none is.
\<close>

theorem C6_partial_population_witness:
  "fst (AgentService_initialize no_faiss_env initial_world) \<and>
   map tool_name (tools (agent_service (snd (AgentService_initialize no_faiss_env initial_world)))) =
     [''ArxivSearch'', ''DuckDuckGoSearch'', ''WikipediaSearch'',
      ''get_business_client_by_id'', ''get_business_client_by_email'',
      ''search_business_clients'', ''get_active_business_clients'',
      ''get_business_client_count'', ''query_music_database''] \<and>
   \<not> fst (AgentService_initialize no_arxiv_env initial_world) \<and>
   tools (agent_service (snd (AgentService_initialize no_arxiv_env initial_world))) = []"
proof -
  have n: "agent_executor (agent_service initial_world) = None"
    by (simp add: initial_world_def)
  have l1: "new_ChatOpenAI no_faiss_env = Returns (ChatOpenAI ''gpt-4o'')"
    by (simp add: no_faiss_env_def example_env_def)
  have l2: "new_ChatOpenAI no_arxiv_env = Returns (ChatOpenAI ''gpt-4o'')"
    by (simp add: no_arxiv_env_def example_env_def)
  have s1: "get_all_search_tools no_faiss_env =
              Returns [Tool ''ArxivSearch'', Tool ''DuckDuckGoSearch'', Tool ''WikipediaSearch'']"
    by (simp add: service_defs no_faiss_env_def example_env_def)
  have c1: "\<forall>ts. \<exists>ex. create_react_agent no_faiss_env (ChatOpenAI ''gpt-4o'') ts = Returns ex"
    by (simp add: no_faiss_env_def example_env_def)
  have r1: "fst (get_retriever_tool no_faiss_env (faiss_service initial_world)) = None"
    by (simp add: service_defs no_faiss_env_def example_env_def initial_world_def)
  have s2: "get_all_search_tools no_arxiv_env = Raises ''Could not import arxiv python package''"
    by (simp add: service_defs no_arxiv_env_def example_env_def)
  have t: "tools (agent_service initial_world) = []"
    by (simp add: initial_world_def)
  from C6_partial_population[OF n l1] s1 c1 r1
  have a: "fst (AgentService_initialize no_faiss_env initial_world) \<and>
           tools (agent_service (snd (AgentService_initialize no_faiss_env initial_world))) =
             [Tool ''ArxivSearch'', Tool ''DuckDuckGoSearch'', Tool ''WikipediaSearch''] @
             get_all_crm_tools @ [get_sql_tool] @ []"
    by simp
  from C6_partial_population[OF n l2] s2 t
  have b: "\<not> fst (AgentService_initialize no_arxiv_env initial_world) \<and>
           tools (agent_service (snd (AgentService_initialize no_arxiv_env initial_world))) = []"
    by simp
  show ?thesis
    using a b by (simp add: get_all_crm_tools_def get_sql_tool_def)
qed

text \<open>
  Claim C7. When the agent service is ready, \<^verbatim>\<open>initialize\<close> returns True and
  leaves the state as it is. Hence after a successful initialisation the service is
  ready, and a second call, in whatever environment, returns True and changes nothing;
  the list of registered tools has the same length after it.
\<close>

theorem C7_initialize_idempotent:
  "(AgentService_is_ready w \<longrightarrow> AgentService_initialize env w = (True, w)) \<and>
   (fst (AgentService_initialize env w) \<longrightarrow>
      AgentService_is_ready (snd (AgentService_initialize env w)) \<and>
      AgentService_initialize env' (snd (AgentService_initialize env w)) =
        (True, snd (AgentService_initialize env w)) \<and>
      length (tools (agent_service (snd (AgentService_initialize env'
                (snd (AgentService_initialize env w)))))) =
      length (tools (agent_service (snd (AgentService_initialize env w)))))"
  using initialize_ready initialize_success_ready
  by (simp add: AgentService_is_ready_def)

text \<open>
  The theorem from the initial state: a first call that succeeds, then a second call in
  an environment in which a fresh initialisation would fail.
\<close>

theorem C7_initialize_idempotent_witness:
  "AgentService_is_ready (snd (AgentService_initialize example_env initial_world)) \<and>
   AgentService_initialize no_llm_env (snd (AgentService_initialize example_env initial_world)) =
     (True, snd (AgentService_initialize example_env initial_world))"
  using C7_initialize_idempotent[of initial_world example_env no_llm_env] example_initialize
  by blast

section \<open>Properties of the tools\<close>






section \<open>Properties of the conversation history\<close>







lemma snd_validate_history_Cons:
  "snd (validate_history k ((r, c) # h)) =
     (case parse_MessageRole r of
        None \<Rightarrow> snd (validate_history (Suc k) h)
      | Some mr \<Rightarrow> \<lparr>role = mr, content = c\<rparr> # snd (validate_history (Suc k) h))"
  by (simp split: prod.split option.split)


lemma join_role_field:
  "join '' -> '' (map str_loc [Key ''body'', Key ''conversation_history'', Index i, Key ''role'']) =
   ''body -> conversation_history -> '' @ show_nat i @ '' -> role''"
  by simp





lemma collect_history_fst:
  "fst (collect_history ms (h, a)) = h @ List.map_filter (\<lambda>m. case m of
      HumanMessage c \<Rightarrow> Some \<lparr>role = USER, content = c\<rparr>
    | AIMessage c calls \<Rightarrow> Some \<lparr>role = ASSISTANT, content = c\<rparr>
    | _ \<Rightarrow> None) ms"
proof (induction ms arbitrary: h a)
  case Nil
  then show ?case by (simp add: List.map_filter_simps)
next
  case (Cons m ms)
  then show ?case by (cases m) (simp_all add: List.map_filter_simps)
qed

lemma map_filter_roles:
  "e \<in> set (List.map_filter (\<lambda>m. case m of
      HumanMessage c \<Rightarrow> Some \<lparr>role = USER, content = c\<rparr>
    | AIMessage c calls \<Rightarrow> Some \<lparr>role = ASSISTANT, content = c\<rparr>
    | _ \<Rightarrow> None) ms) \<Longrightarrow> role e = USER \<or> role e = ASSISTANT"
  by (auto simp: List.map_filter_def split: message.splits)

lemma count_invoke:
  "\<exists>result w'. AgentService_invoke tool_call_env initial_world (message count_request)
     (history_dicts count_request) = (Returns result, w') \<and>
     result ''messages'' = Some [HumanMessage ''How many clients are there?'',
        AIMessage '''' [\<lparr>call_name = ''get_business_client_count'', call_args = ''{}'',
                                 call_id = ''call_1''\<rparr>],
               ToolMessage ''Total Business Clients: 25'' ''call_1'',
               AIMessage ''There are 25 business clients.'' []]"
  by (simp add: service_defs tool_call_env_def example_env_def initial_world_def count_request_def)

text \<open>
  Claim C9, as stated, says that the messages of a tool call are left out of the returned
  history. A run with one tool call returns the assistant message that carries the tool
  call (with empty content) as an assistant entry; only the tool message is left out.
\<close>

theorem C9_tool_call_message_counterexample:
  "\<not> isl (fst (chat tool_call_env initial_world count_request)) \<and>
   response_conversation_history (projr (fst (chat tool_call_env initial_world count_request))) =
     [\<lparr>role = USER, content = ''How many clients are there?''\<rparr>,
      \<lparr>role = ASSISTANT, content = ''''\<rparr>,
      \<lparr>role = ASSISTANT, content = ''There are 25 business clients.''\<rparr>]"
  by (simp add: chat_def service_defs tool_call_env_def example_env_def initial_world_def count_request_def)

text \<open>
  Claim C9, amended. The history returned by \<^verbatim>\<open>POST /chat\<close> has only entries
  with the role user or assistant: in order, one entry for every human message and one
  for every assistant message of the result, with the content of the message, the
  assistant messages that carry tool calls included; system messages and tool messages
  are omitted.
\<close>

theorem C9_wire_history:
  assumes "AgentService_invoke env w (message request) (history_dicts request) =
             (Returns result, w')"
  shows "\<exists>resp. chat env w request = (Inr resp, w') \<and>
           response_conversation_history resp =
             List.map_filter (\<lambda>m. case m of
                 HumanMessage c \<Rightarrow> Some \<lparr>role = USER, content = c\<rparr>
               | AIMessage c calls \<Rightarrow> Some \<lparr>role = ASSISTANT, content = c\<rparr>
               | _ \<Rightarrow> None)
               (case result ''messages'' of None \<Rightarrow> [] | Some ms \<Rightarrow> ms) \<and>
           (\<forall>e \<in> set (response_conversation_history resp). role e = USER \<or> role e = ASSISTANT)"
proof -
  define messages where "messages = (case result ''messages'' of None \<Rightarrow> [] | Some ms \<Rightarrow> ms)"
  obtain h a where ha: "collect_history messages ([], []) = (h, a)"
    by (metis prod.exhaust)
  have h: "h = List.map_filter (\<lambda>m. case m of
                 HumanMessage c \<Rightarrow> Some \<lparr>role = USER, content = c\<rparr>
               | AIMessage c calls \<Rightarrow> Some \<lparr>role = ASSISTANT, content = c\<rparr>
               | _ \<Rightarrow> None) messages"
    using collect_history_fst[of messages "[]" "[]"] ha by simp
  have "chat env w request =
          (Inr \<lparr>response_message = a, response_conversation_history = h,
                metadata = Some [''response_time_ms'' \<mapsto> (Integer (response_time_ms env)),
                                 ''tools_available'' \<mapsto>
                                    (Integer (int (length (tools (agent_service w')))))]\<rparr>, w')"
    using assms ha by (simp add: chat_def messages_def)
  then show ?thesis
    using h map_filter_roles unfolding messages_def by auto
qed

text \<open>The theorem at the run with one tool call.\<close>

theorem C9_wire_history_witness:
  "\<exists>resp w'. chat tool_call_env initial_world count_request = (Inr resp, w') \<and>
     response_conversation_history resp =
       [\<lparr>role = USER, content = ''How many clients are there?''\<rparr>,
        \<lparr>role = ASSISTANT, content = ''''\<rparr>,
        \<lparr>role = ASSISTANT, content = ''There are 25 business clients.''\<rparr>]"
proof -
  from count_invoke obtain result w' where
    i: "AgentService_invoke tool_call_env initial_world (message count_request)
          (history_dicts count_request) = (Returns result, w')"
    and m: "result ''messages'' = Some [HumanMessage ''How many clients are there?'',
        AIMessage '''' [\<lparr>call_name = ''get_business_client_count'', call_args = ''{}'',
                         call_id = ''call_1''\<rparr>],
        ToolMessage ''Total Business Clients: 25'' ''call_1'',
        AIMessage ''There are 25 business clients.'' []]"
    by blast
  from C9_wire_history[OF i] m obtain resp where
    "chat tool_call_env initial_world count_request = (Inr resp, w')"
    and "response_conversation_history resp =
       [\<lparr>role = USER, content = ''How many clients are there?''\<rparr>,
        \<lparr>role = ASSISTANT, content = ''''\<rparr>,
        \<lparr>role = ASSISTANT, content = ''There are 25 business clients.''\<rparr>]"
    by (auto simp: List.map_filter_simps)
  then show ?thesis
    by blast
qed

end
